theory Spec2Isabelle
  imports Main "HOL-Library.AList" "HOL-Library.Sublist"
begin

section \<open>Python values, dictionaries and exceptions\<close>

text \<open>
  The SDK (\<^verbatim>\<open>geni_wrapper/sdk.py\<close>) passes dictionaries around: request parameters, decoded
  JSON bodies, the results given to callbacks. They are modelled by one type of Python
  values. A dictionary is an association list in insertion order: \<open>map_of\<close> is the lookup,
  \<open>AList.update\<close> is \<^verbatim>\<open>d[k] = v\<close> (in place for a present key, appended otherwise) and
  \<open>AList.delete\<close> removes a key. Strings are byte strings; JSON numbers are integers.
\<close>

datatype pyval =
    PNone
  | PBool bool
  | PInt int
  | PStr string
  | PList "pyval list"
  | PDict "(string \<times> pyval) list"

type_synonym pydict = "(string \<times> pyval) list"

text \<open>
  The exceptions the code raises or meets. \<open>TransportError\<close> stands for whatever
  \<^verbatim>\<open>requests\<close> raises (connection failure, JSON decode failure); its argument is \<^verbatim>\<open>str(e)\<close>.
\<close>

datatype error =
    ValueError string
  | AttributeError string
  | TypeError string
  | KeyError string
  | IndexError string
  | TransportError string

fun error_str :: "error \<Rightarrow> string" where
  "error_str (ValueError m) = m"
| "error_str (AttributeError m) = m"
| "error_str (TypeError m) = m"
| "error_str (KeyError k) = [CHR 0x27] @ k @ [CHR 0x27]"
| "error_str (IndexError m) = m"
| "error_str (TransportError m) = m"

fun type_name :: "pyval \<Rightarrow> string" where
  "type_name PNone = ''NoneType''"
| "type_name (PBool _) = ''bool''"
| "type_name (PInt _) = ''int''"
| "type_name (PStr _) = ''str''"
| "type_name (PList _) = ''list''"
| "type_name (PDict _) = ''dict''"

text \<open>Truth value of a Python object, as \<^verbatim>\<open>if x:\<close> and \<^verbatim>\<open>not x\<close> test it.\<close>

fun py_truthy :: "pyval \<Rightarrow> bool" where
  "py_truthy PNone = False"
| "py_truthy (PBool b) = b"
| "py_truthy (PInt i) = (i \<noteq> 0)"
| "py_truthy (PStr s) = (s \<noteq> [])"
| "py_truthy (PList xs) = (xs \<noteq> [])"
| "py_truthy (PDict d) = (d \<noteq> [])"

definition str_truthy :: "string option \<Rightarrow> bool" where
  "str_truthy s = (case s of None \<Rightarrow> False | Some t \<Rightarrow> t \<noteq> [])"

definition no_attribute :: "pyval \<Rightarrow> string \<Rightarrow> error" where
  "no_attribute v a =
     AttributeError ([CHR 0x27] @ type_name v @ [CHR 0x27] @ '' object has no attribute ''
                     @ [CHR 0x27] @ a @ [CHR 0x27])"

text \<open>\<^verbatim>\<open>'error' in data\<close>: key test on a dict, membership in a list, substring of a string.\<close>

fun py_contains :: "string \<Rightarrow> pyval \<Rightarrow> error + bool" where
  "py_contains k (PDict d) = Inr (map_of d k \<noteq> None)"
| "py_contains k (PList xs) = Inr (PStr k \<in> set xs)"
| "py_contains k (PStr s) = Inr (sublist k s)"
| "py_contains k v =
     Inl (TypeError (''argument of type '' @ [CHR 0x27] @ type_name v @ [CHR 0x27]
                     @ '' is not iterable''))"

text \<open>\<^verbatim>\<open>data['error']\<close> with a string subscript.\<close>

fun py_item :: "pyval \<Rightarrow> string \<Rightarrow> error + pyval" where
  "py_item (PDict d) k = (case map_of d k of None \<Rightarrow> Inl (KeyError k) | Some v \<Rightarrow> Inr v)"
| "py_item (PList xs) k = Inl (TypeError ''list indices must be integers or slices, not str'')"
| "py_item (PStr s) k =
     Inl (TypeError (''string indices must be integers, not '' @ [CHR 0x27] @ ''str'' @ [CHR 0x27]))"
| "py_item v k =
     Inl (TypeError ([CHR 0x27] @ type_name v @ [CHR 0x27] @ '' object is not subscriptable''))"

text \<open>\<^verbatim>\<open>x.get(k, default)\<close>: only a dict has the method.\<close>

fun py_get :: "pyval \<Rightarrow> string \<Rightarrow> pyval \<Rightarrow> error + pyval" where
  "py_get (PDict d) k dflt = Inr (case map_of d k of None \<Rightarrow> dflt | Some v \<Rightarrow> v)"
| "py_get v k dflt = Inl (no_attribute v ''get'')"

text \<open>\<^verbatim>\<open>d.pop(k, default)\<close>: the value taken out and the dictionary that is left.\<close>

definition dict_pop :: "string \<Rightarrow> pyval \<Rightarrow> pydict \<Rightarrow> pyval \<times> pydict" where
  "dict_pop k dflt d = ((case map_of d k of None \<Rightarrow> dflt | Some v \<Rightarrow> v), AList.delete k d)"

definition upper_char :: "char \<Rightarrow> char" where
  "upper_char c =
     (let n = (of_char c :: nat) in if 97 \<le> n \<and> n \<le> 122 then char_of (n - 32) else c)"

text \<open>\<^verbatim>\<open>x.upper()\<close>: only a string has the method (ASCII letters are mapped).\<close>

fun py_upper :: "pyval \<Rightarrow> error + string" where
  "py_upper (PStr s) = Inr (map upper_char s)"
| "py_upper v = Inl (no_attribute v ''upper'')"

text \<open>\<^verbatim>\<open>str(n)\<close> for a port number.\<close>

fun str_nat :: "nat \<Rightarrow> string" where
  "str_nat n =
     (if n < 10 then [char_of (48 + n)] else str_nat (n div 10) @ [char_of (48 + n mod 10)])"

fun join :: "string \<Rightarrow> string list \<Rightarrow> string" where
  "join sep [] = []"
| "join sep [x] = x"
| "join sep (x # y # ys) = x @ sep @ join sep (y # ys)"

section \<open>Observable effects\<close>

text \<open>
  Callbacks are caller-supplied functions. The model keeps them as opaque handles that
  are compared by identity; calling one is recorded with its arguments. A callback is
  taken to return normally and not to call back into the SDK. The other effects the code
  has on its surroundings are recorded in the same trace, in the order they happen.
\<close>

datatype callback = Callback nat

datatype effect =
    Printed "pyval list"
  | Published string "pyval list"
  | Called callback "pyval list"
  | Listening nat
  | Browser string
  | Replied nat
  | HttpRequest string string "pydict option" "pydict option"

text \<open>
  \<open>Printed\<close>: a \<^verbatim>\<open>print\<close> of the logger; \<open>Published\<close>: a call of \<^verbatim>\<open>Event.trigger\<close>;
  \<open>Called\<close>: a callback invocation; \<open>Listening\<close>: an \<^verbatim>\<open>HTTPServer\<close> bound to a local port;
  \<open>Browser\<close>: \<^verbatim>\<open>webbrowser.open(url)\<close>; \<open>Replied\<close>: the status line sent back on the loopback
  connection; \<open>HttpRequest method url params json\<close>: a call of \<^verbatim>\<open>requests.request\<close>.
\<close>

section \<open>GeniEvent\<close>

type_synonym geni_event = "(string \<times> callback list) list"

definition bind :: "geni_event \<Rightarrow> string \<Rightarrow> callback \<Rightarrow> geni_event" where
  "bind ev event cb =
     (let ev1 = (if map_of ev event = None then AList.update event [] ev else ev)
      in case map_of ev1 event of
           None \<Rightarrow> ev1
         | Some cbs \<Rightarrow> AList.update event (cbs @ [cb]) ev1)"

text \<open>
  \<^verbatim>\<open>list.remove(x)\<close> removes the first occurrence and raises \<^verbatim>\<open>ValueError\<close> when there is
  none. The result of \<open>unbind\<close> is the registry after the call and how the call ended.
\<close>

definition unbind :: "geni_event \<Rightarrow> string \<Rightarrow> callback option \<Rightarrow> geni_event \<times> (error + pyval)" where
  "unbind ev event callback =
     (case map_of ev event of
        None \<Rightarrow> (ev, Inr PNone)
      | Some cbs \<Rightarrow>
          (case callback of
             None \<Rightarrow> (AList.delete event ev, Inr PNone)
           | Some cb \<Rightarrow>
               if cb \<in> set cbs then (AList.update event (remove1 cb cbs) ev, Inr PNone)
               else (ev, Inl (ValueError ''list.remove(x): x not in list''))))"

text \<open>
  \<open>trigger\<close> gives what a call of \<^verbatim>\<open>Event.trigger\<close> does: the call itself, then one call of
  each subscriber of the event, in subscription order.
\<close>

definition trigger :: "geni_event \<Rightarrow> string \<Rightarrow> pyval list \<Rightarrow> effect list" where
  "trigger ev event args =
     Published event args
     # (case map_of ev event of
          None \<Rightarrow> []
        | Some cbs \<Rightarrow> map (\<lambda>cb. Called cb args) cbs)"

section \<open>GeniSDK: session state\<close>

text \<open>
  The fields of a \<^verbatim>\<open>GeniSDK\<close> object. \<open>access_token\<close> and \<open>status\<close> are Python values as
  in the code (the token is \<^verbatim>\<open>None\<close> or the string taken from the callback URL, the status
  one of the strings the code assigns); \<open>Event\<close> is the \<^verbatim>\<open>GeniEvent\<close> registry; \<open>effects\<close> is
  the trace of what the object has done so far.
\<close>

record sdk =
  app_id :: "string option"
  host :: string
  cookies :: bool
  logging :: bool
  access_token :: pyval
  status :: pyval
  Event :: geni_event
  effects :: "effect list"

definition emit :: "sdk \<Rightarrow> effect list \<Rightarrow> sdk" where
  "emit st es = st\<lparr>effects := effects st @ es\<rparr>"

text \<open>\<^verbatim>\<open>if callback: callback(*args)\<close>\<close>

definition deliver :: "sdk \<Rightarrow> callback option \<Rightarrow> pyval list \<Rightarrow> sdk" where
  "deliver st callback args =
     (case callback of None \<Rightarrow> st | Some cb \<Rightarrow> emit st [Called cb args])"

definition sdk_log :: "sdk \<Rightarrow> pyval list \<Rightarrow> sdk" where
  "sdk_log st args = (if logging st then emit st [Printed (PStr ''[Geni SDK]'' # args)] else st)"

text \<open>
  \<^verbatim>\<open>__init__\<close>: the fields are set first, the check of the application id comes last.
  The result is the object and how the constructor ended.
\<close>

definition init :: "string option \<Rightarrow> string \<Rightarrow> bool \<Rightarrow> bool \<Rightarrow> sdk \<times> (error + pyval)" where
  "init app h c l =
     (let st = \<lparr>app_id = app, host = h, cookies = c, logging = l, access_token = PNone,
                status = PStr ''unknown'', Event = [], effects = []\<rparr>
      in if \<not> str_truthy app
         then (sdk_log st [PStr ''Geni Python SDK requires an Application ID''],
               Inl (ValueError ''Geni Python SDK requires an Application ID''))
         else (st, Inr PNone))"

definition set_status :: "sdk \<Rightarrow> pyval \<Rightarrow> sdk" where
  "set_status st s =
     (if status st \<noteq> s
      then emit (st\<lparr>status := s\<rparr>) (trigger (Event st) ''auth:statusChange'' [s])
      else st)"

section \<open>GeniSDK.api\<close>

text \<open>
  What the network does with one request: \<^verbatim>\<open>requests.request\<close> raises (\<open>NetFail\<close>, with
  \<^verbatim>\<open>str(e)\<close>), or it returns a response whose \<^verbatim>\<open>.json()\<close> raises (\<open>DecodeFail\<close>) or yields a
  decoded body.
\<close>

datatype net = NetFail string | DecodeFail string | Body pyval

text \<open>
  The part of the \<^verbatim>\<open>try\<close> block after the body is decoded: the inspection for an error
  marker. An exception leaves the state as it is at that point. \<open>attempt\<close> is the \<^verbatim>\<open>try\<close> block
  up to the callback: the request, the decoding and the inspection.
\<close>

definition inspect :: "sdk \<Rightarrow> pyval \<Rightarrow> sdk \<times> (error + pyval)" where
  "inspect st data =
     (case py_contains ''error'' data of
        Inl e \<Rightarrow> (st, Inl e)
      | Inr False \<Rightarrow> (st, Inr data)
      | Inr True \<Rightarrow>
          (case py_item data ''error'' of
             Inl e \<Rightarrow> (st, Inl e)
           | Inr err \<Rightarrow>
               (let st1 = sdk_log st [PStr ''API error:'', err]
                in case py_get data ''error'' (PDict []) of
                     Inl e \<Rightarrow> (st1, Inl e)
                   | Inr v \<Rightarrow>
                       (case py_get v ''type'' PNone of
                          Inl e \<Rightarrow> (st1, Inl e)
                        | Inr t \<Rightarrow>
                            if t = PStr ''OAuthException''
                            then (set_status (st1\<lparr>access_token := PNone\<rparr>) (PStr ''unauthorized''),
                                  Inr data)
                            else (st1, Inr data)))))"

definition attempt :: "sdk \<Rightarrow> net \<Rightarrow> sdk \<times> (error + pyval)" where
  "attempt st n =
     (case n of
        NetFail m \<Rightarrow> (st, Inl (TransportError m))
      | DecodeFail m \<Rightarrow> (st, Inl (TransportError m))
      | Body data \<Rightarrow> inspect st data)"

text \<open>
  \<open>api st path params callback n\<close> returns the object after the call, the caller's
  \<^verbatim>\<open>params\<close> dictionary after the call, and the result. An absent or empty \<^verbatim>\<open>params\<close> is
  replaced by a fresh dictionary, so the caller's one (if any) is untouched; a non-empty
  one is the very dictionary the code pops from and stores into.
\<close>

definition api ::
  "sdk \<Rightarrow> string \<Rightarrow> pydict option \<Rightarrow> callback option \<Rightarrow> net
   \<Rightarrow> sdk \<times> pydict option \<times> (error + pyval)" where
  "api st path params callback n =
     (let fresh = (case params of None \<Rightarrow> True | Some d \<Rightarrow> d = []);
          p0 = (case params of None \<Rightarrow> [] | Some d \<Rightarrow> d);
          (m, p1) = dict_pop ''method'' (PStr ''GET'') p0
      in case py_upper m of
           Inl e \<Rightarrow> (st, (if fresh then params else Some p1), Inl e)
         | Inr method \<Rightarrow>
             (let p2 = (if py_truthy (access_token st)
                        then AList.update ''access_token'' (access_token st) p1 else p1);
                  url = host st @ ''/api'' @ ''/'' @ dropWhile (\<lambda>c. c = CHR ''/'') path;
                  st1 = emit st [HttpRequest method url
                                   (if method = ''GET'' then Some p2 else None)
                                   (if method \<noteq> ''GET'' then Some p2 else None)];
                  caller = (if fresh then params else Some p2);
                  (st2, r) = attempt st1 n
              in case r of
                   Inr data \<Rightarrow> (deliver st2 callback [data], caller, Inr data)
                 | Inl e \<Rightarrow>
                     (let err = PDict [(''error'', PStr (error_str e))]
                      in (deliver st2 callback [err], caller, Inr err))))"

section \<open>GeniSDK.get_status\<close>

text \<open>
  The end of \<^verbatim>\<open>get_status\<close>, with the two entries of \<^verbatim>\<open>response\<close> as they are by then: the
  status goes through \<^verbatim>\<open>_set_status\<close>, the response to the callback and to the caller.
\<close>

definition report :: "sdk \<Rightarrow> callback option \<Rightarrow> pyval \<Rightarrow> pyval \<Rightarrow> sdk \<times> (error + pyval)" where
  "report st callback s tok =
     (let response = PDict [(''status'', s), (''access_token'', tok)]
      in (deliver (set_status st s) callback [response], Inr response))"

definition get_status :: "sdk \<Rightarrow> callback option \<Rightarrow> net \<Rightarrow> sdk \<times> (error + pyval)" where
  "get_status st callback n =
     (if py_truthy (access_token st)
      then (case api st ''/user'' None None n of
              (st1, _, Inl e) \<Rightarrow> (st1, Inl e)
            | (st1, _, Inr test_response) \<Rightarrow>
                (case py_get test_response ''error'' PNone of
                   Inl e \<Rightarrow> (st1, Inl e)
                 | Inr v \<Rightarrow>
                     if \<not> py_truthy v
                     then report st1 callback (PStr ''authorized'') (access_token st1)
                     else report (st1\<lparr>access_token := PNone\<rparr>) callback (PStr ''unknown'') PNone))
      else report st callback (PStr ''unknown'') PNone)"

section \<open>GeniSDK.logout\<close>

text \<open>
  The request is made inside \<^verbatim>\<open>try\<close>; the \<^verbatim>\<open>finally\<close> block clears the session and calls the
  callback; an exception of the request is raised again after it. The response is not
  decoded, so of the network's answers only \<open>NetFail\<close> makes a difference.
\<close>

definition logout :: "sdk \<Rightarrow> callback option \<Rightarrow> net \<Rightarrow> sdk \<times> (error + pyval)" where
  "logout st callback n =
     (case app_id st of
        None \<Rightarrow> (st, Inl (ValueError ''logout() called without an app id''))
      | Some app \<Rightarrow>
          if app = [] then (st, Inl (ValueError ''logout() called without an app id''))
          else
            (let url = host st @ ''/oauth/logout'';
                 params = [(''client_id'', PStr app)];
                 params1 = (if py_truthy (access_token st)
                            then AList.update ''access_token'' (access_token st) params
                            else params);
                 st1 = emit st [HttpRequest ''GET'' url (Some params1) None];
                 st2 = set_status (st1\<lparr>access_token := PNone\<rparr>) (PStr ''unknown'');
                 st3 = deliver st2 callback []
             in (st3, (case n of NetFail m \<Rightarrow> Inl (TransportError m) | _ \<Rightarrow> Inr PNone))))"

section \<open>The loopback listener of GeniSDK.connect\<close>

text \<open>
  \<^verbatim>\<open>urlparse(path).query\<close>: the text after the first \<^verbatim>\<open>?\<close> of what precedes the first \<^verbatim>\<open>#\<close>.
  (The scheme and network location that \<^verbatim>\<open>urlparse\<close> splits off first contain neither
  character. The request targets meant are those \<^verbatim>\<open>urlparse\<close> accepts, as every target in
  origin form is.)
\<close>

definition urlparse_query :: "string \<Rightarrow> string" where
  "urlparse_query url =
     (let u = takeWhile (\<lambda>c. c \<noteq> CHR ''#'') url
      in case dropWhile (\<lambda>c. c \<noteq> CHR ''?'') u of [] \<Rightarrow> [] | _ # q \<Rightarrow> q)"

definition hex_val :: "char \<Rightarrow> nat option" where
  "hex_val c =
     (let n = (of_char c :: nat)
      in if 48 \<le> n \<and> n \<le> 57 then Some (n - 48)
         else if 65 \<le> n \<and> n \<le> 70 then Some (n - 55)
         else if 97 \<le> n \<and> n \<le> 102 then Some (n - 87)
         else None)"

text \<open>\<^verbatim>\<open>unquote\<close>: a \<^verbatim>\<open>%\<close> followed by two hexadecimal digits is one byte.\<close>

fun unquote :: "string \<Rightarrow> string" where
  "unquote (c # a # b # s) =
     (if c = CHR ''%'' then
        (case (hex_val a, hex_val b) of
           (Some x, Some y) \<Rightarrow> char_of (16 * x + y) # unquote s
         | _ \<Rightarrow> c # unquote (a # b # s))
      else c # unquote (a # b # s))"
| "unquote (c # s) = c # unquote s"
| "unquote [] = []"

definition unquote_plus :: "string \<Rightarrow> string" where
  "unquote_plus s = unquote (map (\<lambda>c. if c = CHR ''+'' then CHR '' '' else c) s)"

text \<open>\<^verbatim>\<open>s.split(sep)\<close> for a one-character separator: never an empty list.\<close>

fun split_on :: "char \<Rightarrow> string \<Rightarrow> string list" where
  "split_on sep [] = [[]]"
| "split_on sep (c # s) =
     (if c = sep then [] # split_on sep s
      else (case split_on sep s of [] \<Rightarrow> [[c]] | w # ws \<Rightarrow> (c # w) # ws))"

text \<open>
  \<^verbatim>\<open>parse_qsl\<close> with its defaults: fields are separated by \<^verbatim>\<open>&\<close>; an empty field, and a field
  with an empty value, is dropped.
\<close>

definition parse_field :: "string \<Rightarrow> (string \<times> string) list" where
  "parse_field name_value =
     (if name_value = [] then []
      else (let name = takeWhile (\<lambda>c. c \<noteq> CHR ''='') name_value;
                val = (case dropWhile (\<lambda>c. c \<noteq> CHR ''='') name_value of
                         [] \<Rightarrow> [] | _ # v \<Rightarrow> v)
            in if val = [] then [] else [(unquote_plus name, unquote_plus val)]))"

definition parse_qsl :: "string \<Rightarrow> (string \<times> string) list" where
  "parse_qsl qs = (if qs = [] then [] else concat (map parse_field (split_on CHR ''&'' qs)))"

definition parse_qs :: "string \<Rightarrow> (string \<times> string list) list" where
  "parse_qs qs =
     foldl (\<lambda>parsed_result (name, val).
              case map_of parsed_result name of
                Some vs \<Rightarrow> AList.update name (vs @ [val]) parsed_result
              | None \<Rightarrow> AList.update name [val] parsed_result)
           [] (parse_qsl qs)"

text \<open>
  \<^verbatim>\<open>OAuthHandler.do_get\<close>: the value it stores in \<^verbatim>\<open>server.oauth_response\<close>.
\<close>

definition do_get :: "string \<Rightarrow> error + pydict" where
  "do_get path =
     (let query = parse_qs (urlparse_query path)
      in case map_of query ''access_token'' of
           Some vs \<Rightarrow>
             (case vs of
                [] \<Rightarrow> Inl (IndexError ''list index out of range'')
              | v # _ \<Rightarrow> Inr [(''status'', PStr ''authorized''), (''access_token'', PStr v)])
         | None \<Rightarrow>
             Inr [(''status'', PStr ''unknown''),
                  (''error'', PStr ''Authorization failed or was cancelled'')])"

text \<open>
  One inbound request on the loopback listener: the method and the target of its request
  line, as \<^verbatim>\<open>BaseHTTPRequestHandler.parse_request\<close> leaves them in \<^verbatim>\<open>self.command\<close> and
  \<^verbatim>\<open>self.path\<close>.
\<close>

record request =
  command :: string
  path :: string

text \<open>
  The methods whose names start with \<^verbatim>\<open>do_\<close> that \<^verbatim>\<open>OAuthHandler\<close> has: the class defines
  \<^verbatim>\<open>do_get\<close>, and its base class \<^verbatim>\<open>BaseHTTPRequestHandler\<close> defines none.
\<close>

definition handler_methods :: "string list" where
  "handler_methods = [''do_get'']"

text \<open>
  \<^verbatim>\<open>server.handle_request()\<close>. The standard library's \<^verbatim>\<open>handle_one_request\<close> dispatches on the
  method of the request line as it was sent:
  \<^verbatim>\<open>mname = 'do_' + self.command\<close>; \<^verbatim>\<open>if not hasattr(self, mname): self.send_error(501, ...); return\<close>;
  otherwise the method is called. An exception of the handler method is caught and
  reported by the server. The result is the \<^verbatim>\<open>oauth_response\<close> attribute of the server
  afterwards (\<open>None\<close>: never set) and the status line sent.
\<close>

definition handle_request :: "request \<Rightarrow> pydict option \<times> effect list" where
  "handle_request req =
     (let mname = ''do_'' @ command req
      in if mname \<notin> set handler_methods then (None, [Replied 501])
         else (case do_get (path req) of
                 Inl e \<Rightarrow> (None, [Replied 200])
               | Inr r \<Rightarrow> (Some r, [Replied 200])))"

section \<open>GeniSDK.connect\<close>

text \<open>
  \<open>connect st callback port req\<close>: \<open>port\<close> is the port the listener is given and \<open>req\<close> the
  one request that arrives; the model describes the call from the moment it has arrived.
\<close>

definition connect :: "sdk \<Rightarrow> callback option \<Rightarrow> nat \<Rightarrow> request \<Rightarrow> sdk \<times> (error + pyval)" where
  "connect st callback port req =
     (case app_id st of
        None \<Rightarrow> (st, Inl (ValueError ''connect() called without an app id''))
      | Some app \<Rightarrow>
          if app = [] then (st, Inl (ValueError ''connect() called without an app id''))
          else if py_truthy (access_token st) then
            (let st1 = sdk_log st [PStr ''connect() called when user is already connected'']
             in (deliver st1 callback
                   [PDict [(''status'', PStr ''authorized''), (''access_token'', access_token st)]],
                 Inr PNone))
          else
            (let st1 = emit st [Listening port];
                 params = [(''response_type'', ''token''), (''client_id'', app),
                           (''redirect_uri'', ''http://localhost:'' @ str_nat port),
                           (''display'', ''popup'')];
                 auth_url = host st @ ''/oauth/authorize'' @ ''?''
                            @ join ''&'' (map (\<lambda>(k, v). k @ ''='' @ v) params);
                 st2 = emit st1 [Browser auth_url];
                 (oauth_response, replies) = handle_request req;
                 st3 = emit st2 replies;
                 response = (case oauth_response of
                               None \<Rightarrow> [(''status'', PStr ''unknown'')]
                             | Some r \<Rightarrow> r)
             in case map_of response ''status'' of
                  None \<Rightarrow> (st3, Inl (KeyError ''status''))
                | Some s \<Rightarrow>
                    (case (if s = PStr ''authorized''
                           then (case map_of response ''access_token'' of
                                   None \<Rightarrow> Inl (KeyError ''access_token'')
                                 | Some tok \<Rightarrow> Inr (st3\<lparr>access_token := tok\<rparr>))
                           else Inr st3) of
                       Inl e \<Rightarrow> (st3, Inl e)
                     | Inr st4 \<Rightarrow>
                         (deliver (set_status st4 s) callback [PDict response], Inr PNone))))"

section \<open>Sequences of public operations\<close>

datatype op =
    Connect "callback option" nat request
  | GetStatus "callback option" net
  | Logout "callback option" net
  | Api string "pydict option" "callback option" net
  | Bind string callback
  | Unbind string "callback option"

fun step :: "sdk \<Rightarrow> op \<Rightarrow> sdk" where
  "step st (Connect cb port req) = fst (connect st cb port req)"
| "step st (GetStatus cb n) = fst (get_status st cb n)"
| "step st (Logout cb n) = fst (logout st cb n)"
| "step st (Api p params cb n) = fst (api st p params cb n)"
| "step st (Bind event cb) = st\<lparr>Event := bind (Event st) event cb\<rparr>"
| "step st (Unbind event cb) = st\<lparr>Event := fst (unbind (Event st) event cb)\<rparr>"

text \<open>The states at the operation boundaries of a run, the starting state first.\<close>

fun boundaries :: "sdk \<Rightarrow> op list \<Rightarrow> sdk list" where
  "boundaries st [] = [st]"
| "boundaries st (x # xs) = st # boundaries (step st x) xs"

text \<open>The session invariant: a token that counts as held only with status \<^verbatim>\<open>authorized\<close>.\<close>

definition session_inv :: "sdk \<Rightarrow> bool" where
  "session_inv st = (py_truthy (access_token st) \<longrightarrow> status st = PStr ''authorized'')"

section \<open>Notions the properties are stated with\<close>

text \<open>The number of \<^verbatim>\<open>auth:statusChange\<close> publications in a trace.\<close>

fun is_status_change :: "effect \<Rightarrow> bool" where
  "is_status_change (Published ev args) = (ev = ''auth:statusChange'')"
| "is_status_change _ = False"

definition status_changes :: "effect list \<Rightarrow> nat" where
  "status_changes es = length (filter is_status_change es)"

text \<open>
  \<^verbatim>\<open>params.pop('method', 'GET').upper()\<close> needs a string: the \<^verbatim>\<open>method\<close> entry of \<^verbatim>\<open>params\<close>, when
  there is one, names an HTTP method. Only then does \<^verbatim>\<open>api\<close> get as far as the request.
\<close>

definition method_ok :: "pydict option \<Rightarrow> bool" where
  "method_ok params =
     (case params of
        None \<Rightarrow> True
      | Some d \<Rightarrow> (case map_of d ''method'' of
                     None \<Rightarrow> True
                   | Some v \<Rightarrow> (case v of PStr _ \<Rightarrow> True | _ \<Rightarrow> False)))"

text \<open>Whether a trace shows a listener being bound or a browser being opened.\<close>

fun is_handshake :: "effect \<Rightarrow> bool" where
  "is_handshake (Listening port) = True"
| "is_handshake (Browser url) = True"
| "is_handshake _ = False"

text \<open>
  Two clients for concrete instances: one just constructed, and the same one after a
  \<^verbatim>\<open>connect()\<close> whose listener received the request line \<^verbatim>\<open>get /?access_token=XYZ HTTP/1.1\<close>.
\<close>

definition fresh_client :: sdk where
  "fresh_client = fst (init (Some ''app'') ''https://www.geni.com'' False False)"

definition authorized_client :: sdk where
  "authorized_client =
     fst (connect fresh_client None 8080 \<lparr>command = ''get'', path = ''/?access_token=XYZ''\<rparr>)"

section \<open>Field lemmas\<close>

declare str_nat.simps [simp del]

lemma char_of_digits: "char_of (48::nat) = CHR ''0''" "char_of (56::nat) = CHR ''8''"
  by code_simp+

lemma str_nat_8080: "str_nat 8080 = ''8080''"
  by (simp add: str_nat.simps char_of_digits)

lemma emit_fields [simp]:
  "app_id (emit st es) = app_id st" "host (emit st es) = host st"
  "cookies (emit st es) = cookies st" "logging (emit st es) = logging st"
  "access_token (emit st es) = access_token st" "status (emit st es) = status st"
  "Event (emit st es) = Event st" "effects (emit st es) = effects st @ es"
  by (simp_all add: emit_def)

lemma deliver_fields [simp]:
  "app_id (deliver st cb args) = app_id st" "host (deliver st cb args) = host st"
  "cookies (deliver st cb args) = cookies st" "logging (deliver st cb args) = logging st"
  "access_token (deliver st cb args) = access_token st" "status (deliver st cb args) = status st"
  "Event (deliver st cb args) = Event st"
  by (simp_all add: deliver_def split: option.splits)

lemma deliver_effects:
  "effects (deliver st cb args) = effects st @ (case cb of None \<Rightarrow> [] | Some c \<Rightarrow> [Called c args])"
  by (simp add: deliver_def split: option.splits)

lemma sdk_log_fields [simp]:
  "app_id (sdk_log st args) = app_id st" "host (sdk_log st args) = host st"
  "cookies (sdk_log st args) = cookies st" "logging (sdk_log st args) = logging st"
  "access_token (sdk_log st args) = access_token st" "status (sdk_log st args) = status st"
  "Event (sdk_log st args) = Event st"
  by (simp_all add: sdk_log_def)

lemma sdk_log_effects:
  "effects (sdk_log st args) =
     effects st @ (if logging st then [Printed (PStr ''[Geni SDK]'' # args)] else [])"
  by (simp add: sdk_log_def)

lemma set_status_fields [simp]:
  "app_id (set_status st s) = app_id st" "host (set_status st s) = host st"
  "cookies (set_status st s) = cookies st" "logging (set_status st s) = logging st"
  "access_token (set_status st s) = access_token st" "status (set_status st s) = s"
  "Event (set_status st s) = Event st"
  by (simp_all add: set_status_def)

lemma set_status_effects:
  "effects (set_status st s) =
     effects st @ (if status st \<noteq> s then trigger (Event st) ''auth:statusChange'' [s] else [])"
  by (simp add: set_status_def)

lemma status_changes_Nil [simp]: "status_changes [] = 0"
  by (simp add: status_changes_def)

lemma status_changes_Cons [simp]:
  "status_changes (e # es) = (if is_status_change e then 1 else 0) + status_changes es"
  by (simp add: status_changes_def)

lemma status_changes_append [simp]:
  "status_changes (xs @ ys) = status_changes xs + status_changes ys"
  by (simp add: status_changes_def)

lemma status_changes_trigger [simp]:
  "status_changes (trigger ev event args) = (if event = ''auth:statusChange'' then 1 else 0)"
  by (simp add: status_changes_def trigger_def split: option.splits)

lemma fresh_client_eq:
  "fresh_client = \<lparr>app_id = Some ''app'', host = ''https://www.geni.com'', cookies = False,
                    logging = False, access_token = PNone, status = PStr ''unknown'',
                    Event = [], effects = []\<rparr>"
  by (simp add: fresh_client_def init_def str_truthy_def)

section \<open>SessionState: setStatus\<close>

text \<open>
  C6. \<^verbatim>\<open>_set_status\<close> is idempotent with respect to event emission: a second call with the
  same value leaves the object, its trace included, exactly as the first call left it; a
  call with the current status changes nothing; and two calls in a row add at most one
  \<^verbatim>\<open>auth:statusChange\<close> publication to the trace.
\<close>

theorem set_status_idempotent:
  "set_status (set_status st s) s = set_status st s
   \<and> (status st = s \<longrightarrow> set_status st s = st)
   \<and> status_changes (effects (set_status (set_status st s) s)) \<le> status_changes (effects st) + 1"
proof -
  have twice: "set_status (set_status st s) s = set_status st s"
    by (simp add: set_status_def)
  have same: "status st = s \<longrightarrow> set_status st s = st"
    by (simp add: set_status_def)
  have "status_changes (effects (set_status st s)) \<le> status_changes (effects st) + 1"
    by (simp add: set_status_effects)
  with twice same show ?thesis by simp
qed

theorem set_status_idempotent_witness:
  "status fresh_client = PStr ''unknown''
   \<and> set_status fresh_client (PStr ''unknown'') = fresh_client"
  using set_status_idempotent [of fresh_client "PStr ''unknown''"]
  by (simp add: fresh_client_eq)

section \<open>EventBus: unsubscribe\<close>

text \<open>
  C5 (as the code has it). \<^verbatim>\<open>unbind(event, callback)\<close> for an event that has a subscriber list
  and a callback that is not in it raises \<^verbatim>\<open>ValueError\<close> (from \<^verbatim>\<open>list.remove\<close>) to the caller;
  the registry, and so the event's subscriber list, is unchanged.
\<close>

theorem unbind_absent_callback_raises:
  assumes "map_of ev event = Some cbs" and "cb \<notin> set cbs"
  shows "unbind ev event (Some cb) = (ev, Inl (ValueError ''list.remove(x): x not in list''))"
  using assms by (simp add: unbind_def)

theorem unbind_absent_callback_raises_witness:
  "unbind [(''auth:statusChange'', [Callback 1])] ''auth:statusChange'' (Some (Callback 2))
     = ([(''auth:statusChange'', [Callback 1])], Inl (ValueError ''list.remove(x): x not in list''))"
  using unbind_absent_callback_raises [of "[(''auth:statusChange'', [Callback 1])]"
          "''auth:statusChange''" "[Callback 1]" "Callback 2"]
  by simp

text \<open>
  The call is not a silent no-op: with one subscriber \<open>Callback 1\<close>, unsubscribing
  \<open>Callback 2\<close> does not return normally.
\<close>

theorem unbind_absent_callback_counterexample:
  "map_of [(''auth:statusChange'', [Callback 1])] ''auth:statusChange'' = Some [Callback 1]
   \<and> Callback 2 \<notin> set [Callback 1]
   \<and> snd (unbind [(''auth:statusChange'', [Callback 1])] ''auth:statusChange'' (Some (Callback 2)))
       \<noteq> Inr PNone"
  by (simp add: unbind_def)

text \<open>The sibling cases of \<^verbatim>\<open>unbind\<close> do return normally.\<close>

lemma unbind_unknown_event: "map_of ev event = None \<Longrightarrow> unbind ev event cb = (ev, Inr PNone)"
  by (simp add: unbind_def)

lemma unbind_present_callback:
  "map_of ev event = Some cbs \<Longrightarrow> cb \<in> set cbs \<Longrightarrow>
   unbind ev event (Some cb) = (AList.update event (remove1 cb cbs) ev, Inr PNone)"
  by (simp add: unbind_def)

section \<open>The application identifier\<close>

text \<open>
  C8. Constructing the client with \<^verbatim>\<open>app_id=None\<close> raises \<^verbatim>\<open>ValueError\<close> (the code's
  configuration error) whatever the host, cookie and logging arguments are; and on an
  object whose application identifier is absent or empty, \<^verbatim>\<open>connect()\<close> and \<^verbatim>\<open>logout()\<close> raise
  \<^verbatim>\<open>ValueError\<close> at once, leaving the object as it was.
\<close>

theorem missing_app_id_raises:
  "snd (init None h c l) = Inl (ValueError ''Geni Python SDK requires an Application ID'')
   \<and> (\<not> str_truthy (app_id st) \<longrightarrow>
        connect st cb port req = (st, Inl (ValueError ''connect() called without an app id''))
        \<and> logout st cb n = (st, Inl (ValueError ''logout() called without an app id'')))"
  by (simp add: init_def connect_def logout_def str_truthy_def split: option.splits)

theorem missing_app_id_raises_witness:
  "\<not> str_truthy (app_id (fst (init None ''h'' True True)))
   \<and> snd (connect (fst (init None ''h'' True True)) None 8080 \<lparr>command = ''GET'', path = ''/''\<rparr>)
       = Inl (ValueError ''connect() called without an app id'')
   \<and> snd (logout (fst (init None ''h'' True True)) None (Body PNone))
       = Inl (ValueError ''logout() called without an app id'')"
  using missing_app_id_raises [of "''h''" True True "fst (init None ''h'' True True)" None 8080
          "\<lparr>command = ''GET'', path = ''/''\<rparr>" "Body PNone"]
  by (simp add: init_def str_truthy_def)

text \<open>
  The empty string is refused like \<^verbatim>\<open>None\<close>, and a constructed client keeps a non-empty
  application identifier: no operation assigns the field.
\<close>

lemma init_empty_app_id:
  "snd (init (Some []) h c l) = Inl (ValueError ''Geni Python SDK requires an Application ID'')"
  by (simp add: init_def str_truthy_def)

lemma init_returns_iff: "(\<exists>r. snd (init app h c l) = Inr r) \<longleftrightarrow> str_truthy app"
  by (simp add: init_def Let_def)

lemma init_app_id: "app_id (fst (init app h c l)) = app"
  by (simp add: init_def Let_def)

section \<open>OAuthFlow: connect\<close>

text \<open>
  C9. On a client that holds an access token (and, as every constructed client, has its
  application identifier), \<^verbatim>\<open>connect()\<close> returns at once: token, status and subscribers
  are unchanged; the only effects are the optional log line and, when a callback is given,
  its call with \<^verbatim>\<open>{'status': 'authorized', 'access_token': <the held token>}\<close>; no listener
  is bound and no browser is opened.
\<close>

theorem connect_short_circuit:
  assumes "str_truthy (app_id st)" and "py_truthy (access_token st)"
  shows "snd (connect st cb port req) = Inr PNone
         \<and> access_token (fst (connect st cb port req)) = access_token st
         \<and> status (fst (connect st cb port req)) = status st
         \<and> Event (fst (connect st cb port req)) = Event st
         \<and> effects (fst (connect st cb port req)) =
             effects st
             @ (if logging st
                then [Printed [PStr ''[Geni SDK]'',
                               PStr ''connect() called when user is already connected'']]
                else [])
             @ (case cb of
                  None \<Rightarrow> []
                | Some f \<Rightarrow> [Called f [PDict [(''status'', PStr ''authorized''),
                                              (''access_token'', access_token st)]]])
         \<and> filter is_handshake (effects (fst (connect st cb port req)))
             = filter is_handshake (effects st)"
  using assms
  by (simp add: connect_def str_truthy_def deliver_effects sdk_log_effects
           split: option.splits)

text \<open>
  The handler on a concrete request target, and the client it leaves behind when the
  request line was \<^verbatim>\<open>get /?access_token=XYZ HTTP/1.1\<close>.
\<close>

lemma do_get_XYZ:
  "do_get ''/?access_token=XYZ''
     = Inr [(''status'', PStr ''authorized''), (''access_token'', PStr ''XYZ'')]"
  by code_simp

lemma authorized_client_fields:
  "app_id authorized_client = Some ''app''"
  "access_token authorized_client = PStr ''XYZ''"
  "status authorized_client = PStr ''authorized''"
  "Event authorized_client = []"
  "logging authorized_client = False"
  by (simp_all add: authorized_client_def fresh_client_eq connect_def handle_request_def
        handler_methods_def do_get_XYZ Let_def)

theorem connect_short_circuit_witness:
  "str_truthy (app_id authorized_client) \<and> py_truthy (access_token authorized_client)
   \<and> connect authorized_client (Some (Callback 1)) 9090 \<lparr>command = ''GET'', path = ''/''\<rparr>
       = (emit authorized_client
            [Called (Callback 1)
               [PDict [(''status'', PStr ''authorized''), (''access_token'', PStr ''XYZ'')]]],
          Inr PNone)"
proof -
  have h1: "str_truthy (app_id authorized_client)"
    by (simp add: authorized_client_fields str_truthy_def)
  have h2: "py_truthy (access_token authorized_client)"
    by (simp add: authorized_client_fields)
  from connect_short_circuit [OF h1 h2, of "Some (Callback 1)" 9090
         "\<lparr>command = ''GET'', path = ''/''\<rparr>"]
  have "snd (connect authorized_client (Some (Callback 1)) 9090 \<lparr>command = ''GET'', path = ''/''\<rparr>)
          = Inr PNone" by simp
  moreover have "fst (connect authorized_client (Some (Callback 1)) 9090
                        \<lparr>command = ''GET'', path = ''/''\<rparr>)
                  = emit authorized_client
                      [Called (Callback 1)
                         [PDict [(''status'', PStr ''authorized''),
                                 (''access_token'', PStr ''XYZ'')]]]"
    by (simp add: connect_def authorized_client_fields sdk_log_def deliver_def)
  ultimately show ?thesis using h1 h2 by (simp add: prod_eq_iff)
qed

text \<open>
  The dispatch of the listener. A request whose method is \<^verbatim>\<open>GET\<close> is looked up as \<^verbatim>\<open>do_GET\<close>,
  which the handler class does not have: the request is answered with status 501 and
  \<^verbatim>\<open>oauth_response\<close> is never set. The handler's \<^verbatim>\<open>do_get\<close> runs only for the method \<^verbatim>\<open>get\<close>.
\<close>

lemma handle_request_dispatch:
  "handle_request req =
     (if command req = ''get''
      then (case do_get (path req) of Inl e \<Rightarrow> (None, [Replied 200])
                                    | Inr r \<Rightarrow> (Some r, [Replied 200]))
      else (None, [Replied 501]))"
  by (simp add: handle_request_def handler_methods_def)

lemma handle_request_GET:
  "command req = ''GET'' \<Longrightarrow> handle_request req = (None, [Replied 501])"
  by (simp add: handle_request_dispatch)

text \<open>
  So for every \<^verbatim>\<open>GET\<close> request, whatever its query string, a client without a token ends
  with no token and status \<^verbatim>\<open>unknown\<close>, and the callback receives \<^verbatim>\<open>{'status': 'unknown'}\<close>.
\<close>

lemma connect_GET_unknown:
  assumes "str_truthy (app_id st)" and "\<not> py_truthy (access_token st)"
    and "command req = ''GET''"
  shows "snd (connect st cb port req) = Inr PNone
         \<and> access_token (fst (connect st cb port req)) = access_token st
         \<and> status (fst (connect st cb port req)) = PStr ''unknown''
         \<and> (\<forall>f. cb = Some f \<longrightarrow>
               last (effects (fst (connect st cb port req)))
                 = Called f [PDict [(''status'', PStr ''unknown'')]])"
  using assms
  by (auto simp: connect_def str_truthy_def handle_request_GET Let_def deliver_effects
           split: option.splits)

text \<open>
  What the handler computes when it does run is what the flow is meant to deliver: with
  the method \<^verbatim>\<open>get\<close> and an \<^verbatim>\<open>access_token\<close> value in the query, the token is stored and
  reported.
\<close>

lemma connect_get_authorized:
  assumes "str_truthy (app_id st)" and "\<not> py_truthy (access_token st)"
    and "command req = ''get''"
    and "do_get (path req) = Inr [(''status'', PStr ''authorized''), (''access_token'', PStr v)]"
  shows "snd (connect st cb port req) = Inr PNone
         \<and> access_token (fst (connect st cb port req)) = PStr v
         \<and> status (fst (connect st cb port req)) = PStr ''authorized''
         \<and> (\<forall>f. cb = Some f \<longrightarrow>
               last (effects (fst (connect st cb port req)))
                 = Called f [PDict [(''status'', PStr ''authorized''),
                                    (''access_token'', PStr v)]])"
  using assms
  by (auto simp: connect_def str_truthy_def handle_request_dispatch Let_def deliver_effects
           split: option.splits)

text \<open>
  C1 (the code at the failing input). A freshly constructed client calls \<^verbatim>\<open>connect()\<close> with
  a callback, and the browser's redirect arrives as \<^verbatim>\<open>GET /?access_token=XYZ HTTP/1.1\<close>.
  The claim expects the result \<^verbatim>\<open>{'status': 'authorized', 'access_token': 'XYZ'}\<close> and the
  token stored. The code stores no token, stays in status \<^verbatim>\<open>unknown\<close>, answers the request
  with 501 and hands \<^verbatim>\<open>{'status': 'unknown'}\<close> to the callback.
\<close>

theorem connect_GET_token_lost:
  "access_token (fst (connect fresh_client (Some (Callback 1)) 8080
                    \<lparr>command = ''GET'', path = ''/?access_token=XYZ''\<rparr>)) = PNone
   \<and> status (fst (connect fresh_client (Some (Callback 1)) 8080
                    \<lparr>command = ''GET'', path = ''/?access_token=XYZ''\<rparr>)) = PStr ''unknown''
   \<and> effects (fst (connect fresh_client (Some (Callback 1)) 8080
                    \<lparr>command = ''GET'', path = ''/?access_token=XYZ''\<rparr>))
       = [Listening 8080,
          Browser (''https://www.geni.com/oauth/authorize?response_type=token&client_id=app''
                   @ ''&redirect_uri=http://localhost:8080&display=popup''),
          Replied 501,
          Called (Callback 1) [PDict [(''status'', PStr ''unknown'')]]]"
  by (simp add: fresh_client_eq connect_def handle_request_GET Let_def deliver_def emit_def
        set_status_def str_nat_8080)

text \<open>
  The other branch of the claim fails in the same way: a \<^verbatim>\<open>GET\<close> request without a token
  gives \<^verbatim>\<open>{'status': 'unknown'}\<close>, with no \<^verbatim>\<open>error\<close> entry.
\<close>

lemma connect_GET_no_error_entry:
  "last (effects (fst (connect fresh_client (Some (Callback 1)) 8080
                         \<lparr>command = ''GET'', path = ''/?error=access_denied''\<rparr>)))
     = Called (Callback 1) [PDict [(''status'', PStr ''unknown'')]]"
  by (simp add: fresh_client_eq connect_def handle_request_GET Let_def deliver_def emit_def
        set_status_def)

section \<open>OAuthFlow: logout\<close>

text \<open>
  C4. On a client with a configured application identifier, after \<^verbatim>\<open>logout()\<close> the token is
  \<^verbatim>\<open>None\<close> and the status is \<^verbatim>\<open>unknown\<close>, whatever the network did with the request: also
  when the request raised, in which case the exception leaves \<^verbatim>\<open>logout()\<close> after the
  session has been cleared.
\<close>

theorem logout_clears_session:
  assumes "str_truthy (app_id st)"
  shows "access_token (fst (logout st cb n)) = PNone
         \<and> status (fst (logout st cb n)) = PStr ''unknown''
         \<and> snd (logout st cb n)
             = (case n of NetFail m \<Rightarrow> Inl (TransportError m) | _ \<Rightarrow> Inr PNone)"
  using assms
  by (simp add: logout_def str_truthy_def Let_def split: option.splits)

theorem logout_clears_session_witness:
  "str_truthy (app_id authorized_client)
   \<and> access_token authorized_client = PStr ''XYZ''
   \<and> access_token (fst (logout authorized_client None (NetFail ''connection refused''))) = PNone
   \<and> status (fst (logout authorized_client None (NetFail ''connection refused''))) = PStr ''unknown''
   \<and> snd (logout authorized_client None (NetFail ''connection refused''))
       = Inl (TransportError ''connection refused'')"
proof -
  have h: "str_truthy (app_id authorized_client)"
    by (simp add: authorized_client_fields str_truthy_def)
  from logout_clears_session [OF h, of None "NetFail ''connection refused''"] h
  show ?thesis by (simp add: authorized_client_fields)
qed

section \<open>ApiClient: api\<close>

lemma py_upper_error: "py_upper v = Inl e \<Longrightarrow> \<exists>m. e = AttributeError m"
  by (cases v) (auto simp: no_attribute_def)

text \<open>The value \<^verbatim>\<open>.upper()\<close> is called on, for a given \<^verbatim>\<open>params\<close> argument.\<close>

lemma method_ok_upper:
  "method_ok params \<Longrightarrow>
   \<exists>mth. py_upper (fst (dict_pop ''method'' (PStr ''GET'')
                           (case params of None \<Rightarrow> [] | Some d \<Rightarrow> d))) = Inr mth"
  by (auto simp: method_ok_def dict_pop_def split: option.splits pyval.splits)

lemma upper_method_ok:
  "py_upper (fst (dict_pop ''method'' (PStr ''GET'')
                    (case params of None \<Rightarrow> [] | Some d \<Rightarrow> d))) = Inr mth
   \<Longrightarrow> method_ok params"
  by (auto simp: method_ok_def dict_pop_def split: option.splits pyval.splits)

lemma attempt_transport:
  "n = NetFail m \<or> n = DecodeFail m \<Longrightarrow> attempt st n = (st, Inl (TransportError m))"
  by (auto simp: attempt_def)

text \<open>
  The two ways \<^verbatim>\<open>api\<close> ends. \<open>api_raised\<close>: \<^verbatim>\<open>.upper()\<close> raises, before the \<^verbatim>\<open>try\<close> block, and
  only the \<^verbatim>\<open>pop\<close> has happened. \<open>api_returned\<close>: the request is made, and the result is the
  decoded body or the description of whatever was raised inside the \<^verbatim>\<open>try\<close> block.
\<close>

lemma api_raised:
  assumes "py_upper (fst (dict_pop ''method'' (PStr ''GET'')
                            (case params of None \<Rightarrow> [] | Some d \<Rightarrow> d))) = Inl e"
  shows "api st p params cb n =
           (st,
            (if params = None \<or> params = Some [] then params
             else Some (AList.delete ''method'' (case params of None \<Rightarrow> [] | Some d \<Rightarrow> d))),
            Inl e)"
  using assms by (auto simp: api_def Let_def dict_pop_def split: option.splits)

lemma api_returned:
  assumes "py_upper (fst (dict_pop ''method'' (PStr ''GET'')
                            (case params of None \<Rightarrow> [] | Some d \<Rightarrow> d))) = Inr mth"
  shows "api st p params cb n =
           (let p1 = AList.delete ''method'' (case params of None \<Rightarrow> [] | Some d \<Rightarrow> d);
                p2 = (if py_truthy (access_token st)
                      then AList.update ''access_token'' (access_token st) p1 else p1);
                st1 = emit st [HttpRequest mth
                                 (host st @ ''/api'' @ ''/'' @ dropWhile (\<lambda>c. c = CHR ''/'') p)
                                 (if mth = ''GET'' then Some p2 else None)
                                 (if mth \<noteq> ''GET'' then Some p2 else None)];
                res = (case snd (attempt st1 n) of
                         Inr data \<Rightarrow> data
                       | Inl e \<Rightarrow> PDict [(''error'', PStr (error_str e))])
            in (deliver (fst (attempt st1 n)) cb [res],
                (if params = None \<or> params = Some [] then params else Some p2),
                Inr res))"
proof -
  have fresh: "(case params of None \<Rightarrow> True | Some d \<Rightarrow> d = [])
                 = (params = None \<or> params = Some [])"
    by (simp split: option.splits)
  obtain m p1 where pop: "dict_pop ''method'' (PStr ''GET'')
                            (case params of None \<Rightarrow> [] | Some d \<Rightarrow> d) = (m, p1)"
    by (cases "dict_pop ''method'' (PStr ''GET'') (case params of None \<Rightarrow> [] | Some d \<Rightarrow> d)")
  then have p1: "p1 = AList.delete ''method'' (case params of None \<Rightarrow> [] | Some d \<Rightarrow> d)"
    by (simp add: dict_pop_def)
  from assms pop have up: "py_upper m = Inr mth" by simp
  show ?thesis
    unfolding api_def fresh
    by (simp add: Let_def pop up p1 [symmetric] split: prod.splits sum.splits)
qed

text \<open>
  The only exception that leaves \<^verbatim>\<open>api\<close> is the \<^verbatim>\<open>AttributeError\<close> of \<^verbatim>\<open>.upper()\<close> on a \<^verbatim>\<open>method\<close>
  entry that is not a string; the call returns exactly when there is no such entry.
\<close>

lemma api_raises_attribute_error:
  assumes "snd (snd (api st p params cb n)) = Inl e"
  shows "\<exists>m. e = AttributeError m"
proof (cases "py_upper (fst (dict_pop ''method'' (PStr ''GET'')
                               (case params of None \<Rightarrow> [] | Some d \<Rightarrow> d)))")
  case (Inl e')
  from api_raised [OF Inl] assms have "e = e'" by simp
  with py_upper_error [OF Inl] show ?thesis by simp
next
  case (Inr mth)
  from api_returned [OF Inr] assms show ?thesis by (simp add: Let_def)
qed

lemma api_returns_iff:
  "(\<exists>r. snd (snd (api st p params cb n)) = Inr r) \<longleftrightarrow> method_ok params"
proof (cases "py_upper (fst (dict_pop ''method'' (PStr ''GET'')
                               (case params of None \<Rightarrow> [] | Some d \<Rightarrow> d)))")
  case (Inl e)
  have "\<not> method_ok params"
  proof
    assume "method_ok params"
    from method_ok_upper [OF this] Inl show False by simp
  qed
  with api_raised [OF Inl] show ?thesis by simp
next
  case (Inr mth)
  from api_returned [OF Inr] upper_method_ok [OF Inr] show ?thesis by (simp add: Let_def)
qed

text \<open>
  C7. No transport failure leaves \<^verbatim>\<open>api()\<close> as an exception. When the request is made
  (the \<^verbatim>\<open>method\<close> entry, if any, is a string) and the network call or the decoding of the
  body fails with description \<open>m\<close>, the call returns \<^verbatim>\<open>{'error': m}\<close>, hands the same value
  to the callback as its last act, and leaves token and status alone.
\<close>

theorem api_transport_failure_returned:
  "snd (snd (api st p params cb n)) \<noteq> Inl (TransportError m')
   \<and> (method_ok params \<and> (n = NetFail m \<or> n = DecodeFail m) \<longrightarrow>
        snd (snd (api st p params cb n)) = Inr (PDict [(''error'', PStr m)])
        \<and> access_token (fst (api st p params cb n)) = access_token st
        \<and> status (fst (api st p params cb n)) = status st
        \<and> (\<forall>f. cb = Some f \<longrightarrow>
               last (effects (fst (api st p params cb n)))
                 = Called f [PDict [(''error'', PStr m)]]))"
proof -
  have a: "snd (snd (api st p params cb n)) \<noteq> Inl (TransportError m')"
    using api_raises_attribute_error [of st p params cb n "TransportError m'"] by auto
  have b: "snd (snd (api st p params cb n)) = Inr (PDict [(''error'', PStr m)])
        \<and> access_token (fst (api st p params cb n)) = access_token st
        \<and> status (fst (api st p params cb n)) = status st
        \<and> (\<forall>f. cb = Some f \<longrightarrow>
               last (effects (fst (api st p params cb n)))
                 = Called f [PDict [(''error'', PStr m)]])"
    if ok: "method_ok params" and fail: "n = NetFail m \<or> n = DecodeFail m"
  proof -
    from method_ok_upper [OF ok] obtain mth where
      up: "py_upper (fst (dict_pop ''method'' (PStr ''GET'')
                            (case params of None \<Rightarrow> [] | Some d \<Rightarrow> d))) = Inr mth" by blast
    show ?thesis
      using fail
      by (auto simp: api_returned [OF up] Let_def attempt_transport deliver_effects)
  qed
  from a b show ?thesis by blast
qed

theorem api_transport_failure_returned_witness:
  "method_ok (Some [(''method'', PStr ''post'')])
   \<and> snd (snd (api authorized_client ''/profile'' (Some [(''method'', PStr ''post'')])
                  (Some (Callback 2)) (DecodeFail ''Expecting value'')))
       = Inr (PDict [(''error'', PStr ''Expecting value'')])
   \<and> last (effects (fst (api authorized_client ''/profile'' (Some [(''method'', PStr ''post'')])
                            (Some (Callback 2)) (DecodeFail ''Expecting value''))))
       = Called (Callback 2) [PDict [(''error'', PStr ''Expecting value'')]]"
proof -
  have h: "method_ok (Some [(''method'', PStr ''post'')])"
    by (simp add: method_ok_def)
  from api_transport_failure_returned [of authorized_client "''/profile''"
         "Some [(''method'', PStr ''post'')]" "Some (Callback 2)" "DecodeFail ''Expecting value''"
         "[]" "''Expecting value''"] h
  show ?thesis by simp
qed

text \<open>
  An absent or empty \<^verbatim>\<open>params\<close> is replaced by a new dictionary, so the caller's object is
  not touched. A non-empty \<^verbatim>\<open>params\<close> is the dictionary the code works on: what it is after
  the call, when the call returns and when \<^verbatim>\<open>.upper()\<close> raises.
\<close>

lemma api_fresh_params:
  "params = None \<or> params = Some [] \<Longrightarrow> fst (snd (api st p params cb n)) = params"
  by (auto simp: api_def Let_def dict_pop_def split: prod.splits sum.splits)






section \<open>Token invalidation\<close>

lemma inspect_oauth_exception:
  assumes "map_of data ''error'' = Some (PDict err)"
    and "map_of err ''type'' = Some (PStr ''OAuthException'')"
  shows "inspect st (PDict data) =
           (set_status (sdk_log st [PStr ''API error:'', PDict err]\<lparr>access_token := PNone\<rparr>)
              (PStr ''unauthorized''), Inr (PDict data))"
  using assms by (simp add: inspect_def Let_def)

text \<open>
  C3 (as the code has it). When the decoded body of an \<^verbatim>\<open>api()\<close> call is a dictionary whose
  \<^verbatim>\<open>error\<close> entry is a dictionary of type \<^verbatim>\<open>OAuthException\<close>, the token is cleared and the status
  becomes \<^verbatim>\<open>unauthorized\<close> through \<^verbatim>\<open>_set_status\<close> (one \<^verbatim>\<open>auth:statusChange\<close> publication, unless
  the status was \<^verbatim>\<open>unauthorized\<close> already). A following \<^verbatim>\<open>get_status()\<close> sees the cleared
  token: it makes no liveness request, returns \<^verbatim>\<open>{'status': 'unknown', 'access_token': None}\<close>
  and sets the status to \<^verbatim>\<open>unknown\<close>; it does not report \<^verbatim>\<open>unauthorized\<close>.
\<close>

theorem api_oauth_exception_demotes:
  assumes "map_of data ''error'' = Some (PDict err)"
    and "map_of err ''type'' = Some (PStr ''OAuthException'')"
    and "method_ok params"
  shows "access_token (fst (api st p params cb (Body (PDict data)))) = PNone
       \<and> status (fst (api st p params cb (Body (PDict data)))) = PStr ''unauthorized''
       \<and> status_changes (effects (fst (api st p params cb (Body (PDict data)))))
           = status_changes (effects st) + (if status st = PStr ''unauthorized'' then 0 else 1)
       \<and> get_status (fst (api st p params cb (Body (PDict data)))) cb' n'
           = report (fst (api st p params cb (Body (PDict data)))) cb' (PStr ''unknown'') PNone
       \<and> snd (get_status (fst (api st p params cb (Body (PDict data)))) cb' n')
           = Inr (PDict [(''status'', PStr ''unknown''), (''access_token'', PNone)])
       \<and> status (fst (get_status (fst (api st p params cb (Body (PDict data)))) cb' n'))
           = PStr ''unknown''
       \<and> access_token (fst (get_status (fst (api st p params cb (Body (PDict data)))) cb' n'))
           = PNone"
proof -
  from method_ok_upper [OF assms(3)] obtain mth where
    up: "py_upper (fst (dict_pop ''method'' (PStr ''GET'')
                          (case params of None \<Rightarrow> [] | Some d \<Rightarrow> d))) = Inr mth" by blast
  define st1 where "st1 = fst (api st p params cb (Body (PDict data)))"
  have tok: "access_token st1 = PNone" and stat: "status st1 = PStr ''unauthorized''"
    by (simp_all add: st1_def api_returned [OF up] Let_def attempt_def
          inspect_oauth_exception [OF assms(1,2)])
  have ev: "status_changes (effects st1)
              = status_changes (effects st) + (if status st = PStr ''unauthorized'' then 0 else 1)"
    by (simp add: st1_def api_returned [OF up] Let_def attempt_def
          inspect_oauth_exception [OF assms(1,2)] deliver_effects set_status_effects
          sdk_log_effects split: option.splits)
  have gs: "get_status st1 cb' n' = report st1 cb' (PStr ''unknown'') PNone"
    using tok by (simp add: get_status_def)
  have "snd (report st1 cb' (PStr ''unknown'') PNone)
          = Inr (PDict [(''status'', PStr ''unknown''), (''access_token'', PNone)])"
       "status (fst (report st1 cb' (PStr ''unknown'') PNone)) = PStr ''unknown''"
       "access_token (fst (report st1 cb' (PStr ''unknown'') PNone)) = PNone"
    using tok by (simp_all add: report_def Let_def)
  with tok stat ev gs show ?thesis unfolding st1_def by simp
qed

theorem api_oauth_exception_demotes_witness:
  "map_of [(''error'', PDict [(''type'', PStr ''OAuthException'')])] ''error''
     = Some (PDict [(''type'', PStr ''OAuthException'')])
   \<and> map_of [(''type'', PStr ''OAuthException'')] ''type'' = Some (PStr ''OAuthException'')
   \<and> method_ok None
   \<and> access_token authorized_client = PStr ''XYZ''
   \<and> access_token (fst (api authorized_client ''/profile'' None None
        (Body (PDict [(''error'', PDict [(''type'', PStr ''OAuthException'')])])))) = PNone
   \<and> status (fst (api authorized_client ''/profile'' None None
        (Body (PDict [(''error'', PDict [(''type'', PStr ''OAuthException'')])]))))
       = PStr ''unauthorized''"
proof -
  have h1: "map_of [(''error'', PDict [(''type'', PStr ''OAuthException'')])] ''error''
              = Some (PDict [(''type'', PStr ''OAuthException'')])" by simp
  have h2: "map_of [(''type'', PStr ''OAuthException'')] ''type'' = Some (PStr ''OAuthException'')"
    by simp
  have h3: "method_ok None" by (simp add: method_ok_def)
  from api_oauth_exception_demotes [OF h1 h2 h3, of authorized_client "''/profile''" None None
         "Body PNone"] h1 h2 h3
  show ?thesis by (simp add: authorized_client_fields)
qed

text \<open>
  The client that received \<open>XYZ\<close> gets an \<^verbatim>\<open>OAuthException\<close> body from \<^verbatim>\<open>api('/profile')\<close>; the
  following \<^verbatim>\<open>get_status()\<close> reports \<^verbatim>\<open>unknown\<close>, and the status \<^verbatim>\<open>unauthorized\<close> that the call
  had set is gone.
\<close>

theorem get_status_after_demotion_counterexample:
  "status (fst (api authorized_client ''/profile'' None None
        (Body (PDict [(''error'', PDict [(''type'', PStr ''OAuthException'')])]))))
     = PStr ''unauthorized''
   \<and> snd (get_status (fst (api authorized_client ''/profile'' None None
        (Body (PDict [(''error'', PDict [(''type'', PStr ''OAuthException'')])]))))
        None (Body (PDict [])))
       = Inr (PDict [(''status'', PStr ''unknown''), (''access_token'', PNone)])
   \<and> status (fst (get_status (fst (api authorized_client ''/profile'' None None
        (Body (PDict [(''error'', PDict [(''type'', PStr ''OAuthException'')])]))))
        None (Body (PDict []))))
       = PStr ''unknown''
   \<and> PStr ''unknown'' \<noteq> PStr ''unauthorized''"
proof -
  have up: "py_upper (fst (dict_pop ''method'' (PStr ''GET'')
                             (case None of None \<Rightarrow> [] | Some d \<Rightarrow> d)))
              = Inr (map upper_char ''GET'')"
    by (simp add: dict_pop_def)
  define st1 where "st1 = fst (api authorized_client ''/profile'' None None
        (Body (PDict [(''error'', PDict [(''type'', PStr ''OAuthException'')])])))"
  have tok: "access_token st1 = PNone" and stat: "status st1 = PStr ''unauthorized''"
    by (simp_all add: st1_def api_returned [OF up] Let_def attempt_def inspect_def)
  have "get_status st1 None (Body (PDict [])) = report st1 None (PStr ''unknown'') PNone"
    using tok by (simp add: get_status_def)
  then have "snd (get_status st1 None (Body (PDict [])))
               = Inr (PDict [(''status'', PStr ''unknown''), (''access_token'', PNone)])"
    and "status (fst (get_status st1 None (Body (PDict [])))) = PStr ''unknown''"
    by (simp_all add: report_def Let_def)
  with stat show ?thesis unfolding st1_def by simp
qed

text \<open>
  \<^verbatim>\<open>get_status()\<close> reports \<^verbatim>\<open>authorized\<close> or \<^verbatim>\<open>unknown\<close> and nothing else, in whatever state it is
  called.
\<close>

lemma get_status_reports:
  assumes "snd (get_status st cb n) = Inr r"
  shows "r = PDict [(''status'', PStr ''authorized''),
                    (''access_token'', access_token (fst (get_status st cb n)))]
         \<or> r = PDict [(''status'', PStr ''unknown''), (''access_token'', PNone)]"
proof (cases "py_truthy (access_token st)")
  case False
  with assms show ?thesis by (auto simp: get_status_def report_def Let_def)
next
  case True
  obtain st1 ps res where a: "api st ''/user'' None None n = (st1, ps, res)"
    by (cases "api st ''/user'' None None n") auto
  with True assms show ?thesis
    by (auto simp: get_status_def report_def Let_def split: sum.splits if_splits)
qed

section \<open>The session invariant\<close>

lemma session_inv_emit [simp]: "session_inv (emit st es) = session_inv st"
  by (simp add: session_inv_def)

lemma session_inv_deliver [simp]: "session_inv (deliver st cb args) = session_inv st"
  by (simp add: session_inv_def)

lemma session_inv_sdk_log [simp]: "session_inv (sdk_log st args) = session_inv st"
  by (simp add: session_inv_def)

lemma session_inv_cleared [simp]: "session_inv (set_status (st\<lparr>access_token := PNone\<rparr>) s)"
  by (simp add: session_inv_def)

lemma session_inv_authorized [simp]: "session_inv (set_status st (PStr ''authorized''))"
  by (simp add: session_inv_def)

lemma session_inv_no_token: "\<not> py_truthy (access_token st) \<Longrightarrow> session_inv (set_status st s)"
  by (simp add: session_inv_def)

lemma init_inv: "session_inv (fst (init app h c l))"
  by (simp add: init_def Let_def session_inv_def)

lemma inspect_inv: "session_inv st \<Longrightarrow> session_inv (fst (inspect st data))"
  by (simp add: inspect_def Let_def split: sum.splits bool.splits)

lemma attempt_inv: "session_inv st \<Longrightarrow> session_inv (fst (attempt st n))"
  by (cases n) (simp_all add: attempt_def inspect_inv)

lemma api_inv:
  assumes "session_inv st"
  shows "session_inv (fst (api st p params cb n))"
proof -
  have "session_inv (fst (attempt (emit st es) n))" for es
    using assms by (simp add: attempt_inv)
  then show ?thesis
    using assms
    by (cases "py_upper (fst (dict_pop ''method'' (PStr ''GET'')
                                (case params of None \<Rightarrow> [] | Some d \<Rightarrow> d)))")
       (simp_all add: api_raised api_returned Let_def)
qed

lemma report_inv_authorized: "session_inv (fst (report st cb (PStr ''authorized'') tok))"
  by (simp add: report_def Let_def)

lemma report_inv_cleared: "session_inv (fst (report (st\<lparr>access_token := PNone\<rparr>) cb s tok))"
  by (simp add: report_def Let_def)

lemma get_status_inv:
  assumes "session_inv st"
  shows "session_inv (fst (get_status st cb n))"
proof (cases "py_truthy (access_token st)")
  case False
  then show ?thesis
    by (simp add: get_status_def report_def Let_def session_inv_no_token)
next
  case True
  obtain st1 ps r where a: "api st ''/user'' None None n = (st1, ps, r)"
    by (cases "api st ''/user'' None None n") auto
  from api_inv [OF assms, of "''/user''" None None n] a have "session_inv st1" by simp
  with True a show ?thesis
    by (simp add: get_status_def report_inv_authorized report_inv_cleared split: sum.splits)
qed

lemma logout_inv: "session_inv st \<Longrightarrow> session_inv (fst (logout st cb n))"
  by (simp add: logout_def Let_def split: option.splits)

lemma connect_inv:
  assumes "session_inv st"
  shows "session_inv (fst (connect st cb port req))"
proof (cases "py_truthy (access_token st)")
  case True
  with assms show ?thesis
    by (simp add: connect_def Let_def split: option.splits)
next
  case False
  then show ?thesis
    by (auto simp: connect_def Let_def session_inv_def
             split: option.splits prod.splits sum.splits if_splits)
qed

lemma step_inv: "session_inv st \<Longrightarrow> session_inv (step st x)"
  by (cases x)
     (simp_all add: connect_inv get_status_inv logout_inv api_inv, simp_all add: session_inv_def)

lemma boundaries_inv: "session_inv st \<Longrightarrow> \<forall>s \<in> set (boundaries st ops). session_inv s"
proof (induction ops arbitrary: st)
  case Nil
  then show ?case by simp
next
  case (Cons x xs)
  from Cons.prems have "session_inv (step st x)" by (rule step_inv)
  then have "\<forall>s \<in> set (boundaries (step st x) xs). session_inv s" by (rule Cons.IH)
  with Cons.prems show ?case by simp
qed

text \<open>
  C2. From a freshly constructed client, after any sequence of \<^verbatim>\<open>connect\<close>, \<^verbatim>\<open>get_status\<close>,
  \<^verbatim>\<open>logout\<close> and \<^verbatim>\<open>api\<close> calls (and subscriptions), whatever the network and the loopback
  request were and whether the calls returned or raised, every state at an operation
  boundary satisfies the session invariant: a token that is held goes with the status
  \<^verbatim>\<open>authorized\<close>.
\<close>

theorem session_invariant:
  assumes "snd (init app h c l) = Inr r"
  shows "\<forall>s \<in> set (boundaries (fst (init app h c l)) ops). session_inv s"
  using boundaries_inv [OF init_inv] by blast

theorem session_invariant_witness:
  "snd (init (Some ''app'') ''https://www.geni.com'' False False) = Inr PNone
   \<and> authorized_client
       \<in> set (boundaries (fst (init (Some ''app'') ''https://www.geni.com'' False False))
                [Connect None 8080 \<lparr>command = ''get'', path = ''/?access_token=XYZ''\<rparr>])
   \<and> py_truthy (access_token authorized_client)
   \<and> status authorized_client = PStr ''authorized''"
proof -
  have h: "snd (init (Some ''app'') ''https://www.geni.com'' False False) = Inr PNone"
    by (simp add: init_def str_truthy_def)
  have m: "authorized_client
             \<in> set (boundaries (fst (init (Some ''app'') ''https://www.geni.com'' False False))
                      [Connect None 8080 \<lparr>command = ''get'', path = ''/?access_token=XYZ''\<rparr>])"
    by (simp add: authorized_client_def fresh_client_def)
  have t: "py_truthy (access_token authorized_client)"
    by (simp add: authorized_client_fields)
  from session_invariant [OF h] m have "session_inv authorized_client" by blast
  with t have "status authorized_client = PStr ''authorized''"
    by (simp add: session_inv_def)
  with h m t show ?thesis by simp
qed

section \<open>The application identifier of a constructed client\<close>

text \<open>
  No operation assigns \<^verbatim>\<open>_app_id\<close>: every state of a run has the identifier the client was
  constructed with, which is not empty.
\<close>

lemma inspect_app_id: "app_id (fst (inspect st data)) = app_id st"
  by (simp add: inspect_def Let_def split: sum.splits bool.splits)

lemma attempt_app_id: "app_id (fst (attempt st n)) = app_id st"
  by (cases n) (simp_all add: attempt_def inspect_app_id)

lemma api_app_id: "app_id (fst (api st p params cb n)) = app_id st"
  by (cases "py_upper (fst (dict_pop ''method'' (PStr ''GET'')
                              (case params of None \<Rightarrow> [] | Some d \<Rightarrow> d)))")
     (simp_all add: api_raised api_returned Let_def attempt_app_id)

lemma get_status_app_id: "app_id (fst (get_status st cb n)) = app_id st"
proof -
  obtain st1 ps r where a: "api st ''/user'' None None n = (st1, ps, r)"
    by (cases "api st ''/user'' None None n") auto
  from api_app_id [of st "''/user''" None None n] a have "app_id st1 = app_id st" by simp
  with a show ?thesis
    by (simp add: get_status_def report_def Let_def split: sum.splits)
qed

lemma logout_app_id: "app_id (fst (logout st cb n)) = app_id st"
  by (simp add: logout_def Let_def split: option.splits)

lemma connect_app_id: "app_id (fst (connect st cb port req)) = app_id st"
  by (auto simp: connect_def Let_def split: option.splits prod.splits sum.splits if_splits)

lemma step_app_id: "app_id (step st x) = app_id st"
  by (cases x)
     (simp_all add: connect_app_id get_status_app_id logout_app_id api_app_id)

lemma boundaries_app_id: "s \<in> set (boundaries st ops) \<Longrightarrow> app_id s = app_id st"
proof (induction ops arbitrary: st)
  case Nil
  then show ?case by simp
next
  case (Cons x xs)
  then show ?case using step_app_id [of st x] by auto
qed

lemma constructed_client_app_id:
  assumes "snd (init app h c l) = Inr r" and "s \<in> set (boundaries (fst (init app h c l)) ops)"
  shows "str_truthy (app_id s)"
proof -
  from assms(1) have "str_truthy app"
    using init_returns_iff [of app h c l] by blast
  with boundaries_app_id [OF assms(2)] show ?thesis by (simp add: init_app_id)
qed

end
